theory Spec2Isabelle
  imports Main "HOL-Library.AList" "HOL-Library.Multiset" "HOL-Library.Char_ord" "HOL-Library.List_Lexorder"
    "HOL-Library.Product_Lexorder"
begin

section \<open>Audit definitions of sqlmesh/core/audit/definition.py\<close>

text \<open>
  A shallow embedding of the audit definition module: the two audit variants
  (\<open>ModelAudit\<close>, \<open>StandaloneAudit\<close>) over the shared \<open>AuditMixin\<close> fields, the loader
  (\<open>load\<close>, \<open>load_multiple\<close>), rendering, the dependency cache, the metadata hash and
  the text diff. Exceptions are values of the type \<open>error\<close>; a function that can raise
  returns \<open>error + 'a\<close> with \<open>Inl\<close> the exception. Collaborators whose code lives
  outside this module (the query renderer, the SQL generator, the hash, the boolean
  and expression validators) are fields of the record \<open>collab\<close>, passed to every function
  that calls one of them.
\<close>

subsection \<open>Expressions\<close>

text \<open>
  The part of the SQL syntax tree the module inspects. \<open>Audit\<close> is the definition header
  \<open>d.Audit\<close>; its properties are kept as pairs of \<open>p.name\<close> and \<open>p.args.get("value")\<close>.
  \<open>Select\<close> (projections, source, predicate) and \<open>Union\<close> are the instances of
  \<open>exp.Subqueryable\<close>.
\<close>

datatype expr =
    Audit "(string \<times> expr option) list"
  | MacroDef string expr
  | JinjaQuery string
  | Select "expr list" "expr option" "expr option"
  | Union expr expr
  | Subquery expr
  | Star
  | Column string
  | Table string
  | Between expr expr expr
  | Boolean bool
  | Literal string
  | Identifier string
  | Tuple "expr list"
  | Array "expr list"
  | EQ expr expr
  | Statement string

fun is_Audit :: "expr \<Rightarrow> bool" where
  "is_Audit (Audit ps) = True"
| "is_Audit e = False"

fun is_MacroDef :: "expr \<Rightarrow> bool" where
  "is_MacroDef (MacroDef n b) = True"
| "is_MacroDef e = False"

fun is_Subqueryable :: "expr \<Rightarrow> bool" where
  "is_Subqueryable (Select ps f w) = True"
| "is_Subqueryable (Union a b) = True"
| "is_Subqueryable e = False"

fun is_JinjaQuery :: "expr \<Rightarrow> bool" where
  "is_JinjaQuery (JinjaQuery s) = True"
| "is_JinjaQuery e = False"

text \<open>The \<open>name\<close> property of an expression: the text of its \<open>this\<close> argument.\<close>

fun expr_name :: "expr \<Rightarrow> string" where
  "expr_name (Literal s) = s"
| "expr_name (Identifier s) = s"
| "expr_name (Column s) = s"
| "expr_name (Table s) = s"
| "expr_name (MacroDef n b) = n"
| "expr_name e = []"

text \<open>
  \<open>str.lower\<close>. A character of a string is a code point below 256, and on these
  \<open>str.lower\<close> moves the capitals \<open>A\<close> to \<open>Z\<close>, \<open>U+00C0\<close> to \<open>U+00D6\<close> and \<open>U+00D8\<close> to
  \<open>U+00DE\<close> up by 32 and leaves every other code point as it is.
\<close>

definition lower_char :: "char \<Rightarrow> char" where
  "lower_char c =
     (let n = (of_char c :: nat) in
      if (65 \<le> n \<and> n \<le> 90) \<or> (192 \<le> n \<and> n \<le> 214) \<or> (216 \<le> n \<and> n \<le> 222)
      then char_of (n + 32) else c)"

definition lower :: "string \<Rightarrow> string" where
  "lower s = map lower_char s"

subsection \<open>Values, errors, collaborators\<close>

type_synonym path = string

datatype JinjaMacroRegistry = JinjaMacroRegistry "(string \<times> string) list"

text \<open>
  An \<open>Executable\<close> of the python environment: its payload and the rank of its
  \<open>ExecutableKind\<close> in the order the kinds compare.
\<close>

datatype Executable = Executable (payload: string) (kind: nat)

text \<open>The keyword values a constructor can receive.\<close>

datatype pyval =
    PNone
  | PBool bool
  | PStr string
  | PExpr expr
  | PList "expr list"
  | PDict "(string \<times> expr) list"
  | PJinja JinjaMacroRegistry

datatype error =
    AuditConfigError msg "path option"
  | SQLMeshError msg
  | ValidationError string
  | TypeError string
  | CollaboratorError string
and msg =
    IncompleteDefinition
  | AuditStatementRequired
  | MissingRequiredFields "string set"
  | InvalidExtraFields "string set"
  | MissingSelectQuery
  | StrOf error
  | DefaultsShape
  | InvalidDefaultsExpression expr
  | StandaloneBlocking string
  | FailedToRender string string
  | CannotDiff string string

text \<open>\<open>raise_config_error(msg, location=path, error_type=AuditConfigError)\<close>.\<close>

definition raise_config_error_at :: "msg \<Rightarrow> path \<Rightarrow> error + 'a" where
  "raise_config_error_at m p = Inl (AuditConfigError m (Some p))"

definition raise_config_error :: "msg \<Rightarrow> error + 'a" where
  "raise_config_error m = Inl (AuditConfigError m None)"

fun sum_bind :: "error + 'a \<Rightarrow> ('a \<Rightarrow> error + 'b) \<Rightarrow> error + 'b" where
  "sum_bind (Inl e) f = Inl e"
| "sum_bind (Inr a) f = f a"

text \<open>\<open>TimeLike\<close>: a date, a string or a number; \<open>truthy\<close> is Python's truth value of it.\<close>

datatype TimeLike = TimeStr string | TimeNum int | TimeDate nat nat nat

fun truthy :: "TimeLike \<Rightarrow> bool" where
  "truthy (TimeStr s) = (s \<noteq> [])"
| "truthy (TimeNum n) = (n \<noteq> 0)"
| "truthy (TimeDate y m d) = True"

text \<open>The fields of the audited model (\<open>_Model\<close>) that the module reads.\<close>

record Model =
  model_name :: string
  model_dialect :: string
  time_column :: "string option"
  model_python_env :: "(string \<times> Executable) list"
  only_execution_time :: bool

text \<open>A snapshot: its node and \<open>table_name(is_dev, for_read=True)\<close> as a function of \<open>is_dev\<close>.\<close>

record Snapshot =
  snapshot_node :: Model
  table_name :: "bool \<Rightarrow> string"

datatype target = PlainNode Model | VersionedSnapshot Snapshot

type_synonym columns = "(string \<times> string) list"

text \<open>
  Values of the extra keyword arguments of a render call. \<open>KAdapter f\<close> is an engine
  adapter whose \<open>columns(table)\<close> returns \<open>f table\<close>, \<open>None\<close> when it raises.
\<close>

datatype kwval = KExpr expr | KAdapter "string \<Rightarrow> columns option" | KOther string

text \<open>The arguments \<open>QueryRenderer(...)\<close> is constructed with, and those of its \<open>render\<close>.\<close>

record QueryRenderer =
  qr_query :: expr
  qr_dialect :: string
  qr_macro_definitions :: "expr list"
  qr_path :: path
  qr_jinja_macro_registry :: JinjaMacroRegistry
  qr_python_env :: "(string \<times> Executable) list"
  qr_only_execution_time :: "bool option"

record render_call =
  rc_start :: "TimeLike option"
  rc_end :: "TimeLike option"
  rc_execution_time :: "TimeLike option"
  rc_snapshots :: "(string \<times> Snapshot) list option"
  rc_is_dev :: bool
  rc_kwargs :: "string \<rightharpoonup> kwval"

text \<open>
  The collaborators: \<open>bool_validator\<close> and \<open>expression_validator\<close> of
  \<open>sqlmesh.core.model.common\<close>, Python's \<open>str\<close> on a keyword value and on the sorted
  environment, the constant \<open>c.EPOCH\<close>, the model's \<open>convert_to_time_column\<close>,
  \<open>quote_identifiers(exp.to_table(name, dialect), dialect)\<close>, \<open>QueryRenderer.render\<close>
  (it may raise, or return \<open>None\<close>), \<open>d.find_tables\<close>, \<open>Expression.sql(comments=False)\<close>,
  the canonical text and the line diff behind \<open>d.text_diff\<close>, and \<open>hash_data\<close>
  with digests of a type \<open>'h\<close>. \<open>breakpointhook\<close> is the outcome of the built-in
  \<open>breakpoint()\<close>, which calls \<open>sys.breakpointhook\<close> (the interactive debugger, unless
  the environment replaces or disables it): \<open>None\<close> when the call returns, \<open>Some ex\<close>
  when it raises, as it does when the debugger is quit.
\<close>

record 'h collab =
  bool_validator :: "pyval \<Rightarrow> error + bool"
  expression_validator :: "pyval \<Rightarrow> error + pyval"
  py_str :: "pyval \<Rightarrow> string"
  str_env :: "(string \<times> Executable) list \<Rightarrow> string"
  EPOCH :: TimeLike
  convert_to_time_column :: "Model \<Rightarrow> TimeLike \<Rightarrow> columns option \<Rightarrow> expr"
  quoted_table :: "string \<Rightarrow> string \<Rightarrow> expr"
  render :: "QueryRenderer \<Rightarrow> render_call \<Rightarrow> error + expr option"
  find_tables :: "expr \<Rightarrow> string \<Rightarrow> string set"
  sql :: "expr \<Rightarrow> string"
  canonical_sql :: "expr \<Rightarrow> string \<Rightarrow> string"
  unified_diff :: "string \<Rightarrow> string \<Rightarrow> string"
  hash_data :: "string option list \<Rightarrow> 'h"
  breakpointhook :: "error option"

subsection \<open>The shared audit fields\<close>

record AuditMixin =
  name :: string
  dialect :: string
  skip :: bool
  blocking :: bool
  query :: expr
  defaults :: "(string \<times> expr) list"
  expressions_opt :: "expr list option"
  jinja_macros :: JinjaMacroRegistry
  private_path :: "path option"

type_synonym ModelAudit = AuditMixin

text \<open>\<open>expressions\<close>: \<open>self.expressions_ or []\<close>.\<close>

definition expressions :: "'a AuditMixin_scheme \<Rightarrow> expr list" where
  "expressions self = (case expressions_opt self of None \<Rightarrow> [] | Some es \<Rightarrow> es)"

definition macro_definitions :: "'a AuditMixin_scheme \<Rightarrow> expr list" where
  "macro_definitions self = filter is_MacroDef (expressions self)"

subsection \<open>Field validators\<close>

text \<open>
  \<open>audit_string_validator\<close>: an expression gives its lower-cased name, \<open>None\<close> stays
  \<open>None\<close>, anything else its lower-cased string form.
\<close>

fun audit_string_validator :: "'h collab \<Rightarrow> pyval \<Rightarrow> string option" where
  "audit_string_validator C (PExpr e) = Some (lower (expr_name e))"
| "audit_string_validator C PNone = None"
| "audit_string_validator C (PStr s) = Some (lower s)"
| "audit_string_validator C v = Some (lower (py_str C v))"

fun maybe_parse_arg_pair :: "expr \<Rightarrow> error + (string \<times> expr)" where
  "maybe_parse_arg_pair (EQ l r) = Inr (expr_name l, r)"
| "maybe_parse_arg_pair e = raise_config_error (InvalidDefaultsExpression e)"

text \<open>
  \<open>dict(map(_maybe_parse_arg_pair, es))\<close>: the pairs are parsed from left to right, the
  first that is not an equality raises; a key that comes again keeps its place and takes
  the later value.
\<close>

fun dict_of_pairs :: "(string \<times> expr) list \<Rightarrow> expr list \<Rightarrow> error + (string \<times> expr) list" where
  "dict_of_pairs acc [] = Inr acc"
| "dict_of_pairs acc (e # es) =
     (case maybe_parse_arg_pair e of
        Inl ex \<Rightarrow> Inl ex
      | Inr (k, v) \<Rightarrow> dict_of_pairs (AList.update k v acc) es)"

fun audit_map_validator :: "pyval \<Rightarrow> error + (string \<times> expr) list" where
  "audit_map_validator (PExpr (Tuple es)) = dict_of_pairs [] es"
| "audit_map_validator (PExpr (Array es)) = dict_of_pairs [] es"
| "audit_map_validator (PDict d) = Inr d"
| "audit_map_validator v = raise_config_error DefaultsShape"

subsection \<open>Constructing a ModelAudit\<close>

text \<open>
  The declared fields of \<open>ModelAudit\<close>, by the name a caller gives them (\<open>expressions\<close> is
  the alias of \<open>expressions_\<close>): \<open>name\<close> and \<open>query\<close> have no default.
\<close>

definition required_fields :: "string set" where
  "required_fields = {''name'', ''query''}"

definition optional_fields :: "string set" where
  "optional_fields =
     {''dialect'', ''skip'', ''blocking'', ''defaults'', ''expressions'', ''jinja_macros''}"

text \<open>
  Modelled from the spec: \<open>missing_required_fields\<close> and \<open>extra_fields\<close> are class methods
  of \<open>PydanticModel\<close> (\<open>sqlmesh.utils.pydantic\<close>), which is not part of this module:
  \<open>missingRequired = required - provided\<close> and
  \<open>extraUnknown = provided - (required \<union> optional)\<close>.
\<close>

definition missing_required_fields :: "string set \<Rightarrow> string set" where
  "missing_required_fields provided = required_fields - provided"

definition extra_fields :: "string set \<Rightarrow> string set" where
  "extra_fields provided = provided - (required_fields \<union> optional_fields)"

text \<open>
  The field stage of the constructor \<open>cls(**kw)\<close>, field by field in the order of
  declaration: a field that is absent takes its default (an error for \<open>name\<close> and
  \<open>query\<close>), a field that is present goes through the validator the class declares for
  it and must then have the field's type. The first failure is the result.
\<close>

definition string_field :: "'h collab \<Rightarrow> string \<Rightarrow> string option \<Rightarrow> pyval option \<Rightarrow> error + string" where
  "string_field C field dflt v =
     (case v of
        None \<Rightarrow> (case dflt of None \<Rightarrow> Inl (ValidationError field) | Some d \<Rightarrow> Inr d)
      | Some x \<Rightarrow>
          (case audit_string_validator C x of
             None \<Rightarrow> Inl (ValidationError field)
           | Some s \<Rightarrow> Inr s))"

definition bool_field :: "'h collab \<Rightarrow> bool \<Rightarrow> pyval option \<Rightarrow> error + bool" where
  "bool_field C dflt v = (case v of None \<Rightarrow> Inr dflt | Some x \<Rightarrow> bool_validator C x)"

definition query_field :: "'h collab \<Rightarrow> pyval option \<Rightarrow> error + expr" where
  "query_field C v =
     (case v of
        None \<Rightarrow> Inl (ValidationError ''query'')
      | Some x \<Rightarrow>
          sum_bind (expression_validator C x) (\<lambda>y.
            case y of
              PExpr q \<Rightarrow>
                if is_Subqueryable q \<or> is_JinjaQuery q then Inr q
                else Inl (ValidationError ''query'')
            | _ \<Rightarrow> Inl (ValidationError ''query'')))"

definition defaults_field :: "pyval option \<Rightarrow> error + (string \<times> expr) list" where
  "defaults_field v = (case v of None \<Rightarrow> Inr [] | Some x \<Rightarrow> audit_map_validator x)"

definition expressions_field :: "'h collab \<Rightarrow> pyval option \<Rightarrow> error + expr list option" where
  "expressions_field C v =
     (case v of
        None \<Rightarrow> Inr None
      | Some x \<Rightarrow>
          sum_bind (expression_validator C x) (\<lambda>y.
            case y of
              PNone \<Rightarrow> Inr None
            | PList es \<Rightarrow> Inr (Some es)
            | _ \<Rightarrow> Inl (ValidationError ''expressions'')))"

definition jinja_macros_field :: "pyval option \<Rightarrow> error + JinjaMacroRegistry" where
  "jinja_macros_field v =
     (case v of
        None \<Rightarrow> Inr (JinjaMacroRegistry [])
      | Some (PJinja r) \<Rightarrow> Inr r
      | Some _ \<Rightarrow> Inl (ValidationError ''jinja_macros''))"

definition ModelAudit_init :: "'h collab \<Rightarrow> (string \<rightharpoonup> pyval) \<Rightarrow> error + ModelAudit" where
  "ModelAudit_init C kw =
     sum_bind (string_field C ''name'' None (kw ''name'')) (\<lambda>n.
     sum_bind (string_field C ''dialect'' (Some []) (kw ''dialect'')) (\<lambda>d.
     sum_bind (bool_field C False (kw ''skip'')) (\<lambda>s.
     sum_bind (bool_field C True (kw ''blocking'')) (\<lambda>b.
     sum_bind (query_field C (kw ''query'')) (\<lambda>q.
     sum_bind (defaults_field (kw ''defaults'')) (\<lambda>df.
     sum_bind (expressions_field C (kw ''expressions'')) (\<lambda>es.
     sum_bind (jinja_macros_field (kw ''jinja_macros'')) (\<lambda>j.
       Inr \<lparr>name = n, dialect = d, skip = s, blocking = b, query = q, defaults = df,
            expressions_opt = es, jinja_macros = j, private_path = None\<rparr>))))))))"

subsection \<open>Loading\<close>

fun pyval_of :: "expr option \<Rightarrow> pyval" where
  "pyval_of None = PNone"
| "pyval_of (Some e) = PExpr e"

text \<open>
  The keyword dictionary \<open>{"dialect": dialect or "", **{prop.name: value ...}}\<close>: a
  property of the header overrides the loader's dialect, and of two properties of one
  name the later stays. (The comprehension's filter \<open>if prop\<close> keeps every property: an
  expression is true.)
\<close>

definition header_kwargs :: "string option \<Rightarrow> (string \<times> expr option) list \<Rightarrow> (string \<rightharpoonup> pyval)" where
  "header_kwargs dflt props =
     [''dialect'' \<mapsto> PStr (case dflt of None \<Rightarrow> [] | Some d \<Rightarrow> d)]
       ++ map_of (rev (map (\<lambda>(n, v). (n, pyval_of v)) props))"

text \<open>
  The call \<open>cls(query=query, expressions=statements, **kw)\<close>: a key of \<open>kw\<close> that repeats
  one of the two explicit keywords is a \<open>TypeError\<close> of the call itself.
\<close>

definition construct :: "'h collab \<Rightarrow> expr \<Rightarrow> expr list \<Rightarrow> (string \<rightharpoonup> pyval) \<Rightarrow> error + ModelAudit" where
  "construct C q statements kw =
     (if kw ''query'' \<noteq> None then Inl (TypeError ''query'')
      else if kw ''expressions'' \<noteq> None then Inl (TypeError ''expressions'')
      else ModelAudit_init C (kw(''query'' \<mapsto> PExpr q, ''expressions'' \<mapsto> PList statements)))"

text \<open>
  \<open>ModelAudit.load\<close>. The statement \<open>meta, *statements, query = expressions\<close> takes the
  first, the middle and the last of a list of at least two statements. When required
  fields are missing the source calls \<open>breakpoint()\<close> and then raises the configuration
  error: the error is reached only if the call returns, and an exception of the call is
  the result otherwise. The branch for extra fields raises at once.
\<close>

definition load :: "'h collab \<Rightarrow> expr list \<Rightarrow> path \<Rightarrow> string option \<Rightarrow> error + ModelAudit" where
  "load C exprs path dflt =
     (if length exprs < 2 then raise_config_error_at IncompleteDefinition path
      else
        let meta = hd exprs; statements = butlast (tl exprs); q = last exprs in
        case meta of
          Audit props \<Rightarrow>
            let provided_meta_fields = insert ''query'' (set (map fst props));
                missing = missing_required_fields provided_meta_fields;
                extra = extra_fields provided_meta_fields
            in
              if missing \<noteq> {} then
                (case breakpointhook C of
                   Some ex \<Rightarrow> Inl ex
                 | None \<Rightarrow> raise_config_error_at (MissingRequiredFields missing) path)
              else if extra \<noteq> {} then
                raise_config_error_at (InvalidExtraFields extra) path
              else if \<not> is_Subqueryable q then
                raise_config_error_at MissingSelectQuery path
              else
                (case construct C q statements (header_kwargs dflt props) of
                   Inl ex \<Rightarrow> raise_config_error_at (StrOf ex) path
                 | Inr audit \<Rightarrow> Inr (audit\<lparr>private_path := Some path\<rparr>))
        | _ \<Rightarrow> raise_config_error_at AuditStatementRequired path)"

text \<open>
  \<open>ModelAudit.load_multiple\<close>, a generator: the result is the list of the definitions it
  yields, in order, and the exception that ends it, if one does. \<open>blk\<close> is \<open>audit_block\<close>.
\<close>

fun load_multiple_loop ::
  "'h collab \<Rightarrow> path \<Rightarrow> string option \<Rightarrow> expr list \<Rightarrow> expr list \<Rightarrow> ModelAudit list \<times> error option" where
  "load_multiple_loop C path dflt blk [] =
     (case load C blk path dflt of
        Inl ex \<Rightarrow> ([], Some ex)
      | Inr a \<Rightarrow> ([a], None))"
| "load_multiple_loop C path dflt blk (e # es) =
     (if is_Audit e \<and> blk \<noteq> [] then
        (case load C blk path dflt of
           Inl ex \<Rightarrow> ([], Some ex)
         | Inr a \<Rightarrow>
             (case load_multiple_loop C path dflt [e] es of
                (ys, r) \<Rightarrow> (a # ys, r)))
      else load_multiple_loop C path dflt (blk @ [e]) es)"

definition load_multiple ::
  "'h collab \<Rightarrow> expr list \<Rightarrow> path \<Rightarrow> string option \<Rightarrow> ModelAudit list \<times> error option" where
  "load_multiple C exprs path dflt = load_multiple_loop C path dflt [] exprs"

subsection \<open>Rendering\<close>

text \<open>The dictionary \<open>{**self.defaults, **kwargs}\<close>: on a shared key the keyword wins.\<close>

definition render_kwargs :: "'a AuditMixin_scheme \<Rightarrow> (string \<rightharpoonup> kwval) \<Rightarrow> (string \<rightharpoonup> kwval)" where
  "render_kwargs self kwargs = (map_option KExpr \<circ> map_of (defaults self)) ++ kwargs"

definition named_render_parameters :: "string list" where
  "named_render_parameters = [''start'', ''end'', ''execution_time'', ''snapshots'', ''is_dev'']"

text \<open>
  \<open>AuditMixin.render_query\<close>, given the renderer that \<open>self._create_query_renderer(node)\<close>
  built and the name of the node. A key of the merged dictionary that repeats a named
  parameter of \<open>render\<close> is a \<open>TypeError\<close> of the call.
\<close>

definition AuditMixin_render_query ::
  "'h collab \<Rightarrow> 'a AuditMixin_scheme \<Rightarrow> QueryRenderer \<Rightarrow> string \<Rightarrow>
   TimeLike option \<Rightarrow> TimeLike option \<Rightarrow> TimeLike option \<Rightarrow> (string \<times> Snapshot) list option \<Rightarrow>
   bool \<Rightarrow> (string \<rightharpoonup> kwval) \<Rightarrow> error + expr" where
  "AuditMixin_render_query C self query_renderer node_name start_t end_t execution_time
     snapshots is_dev kwargs =
     (let merged = render_kwargs self kwargs in
      case find (\<lambda>k. merged k \<noteq> None) named_render_parameters of
        Some k \<Rightarrow> Inl (TypeError k)
      | None \<Rightarrow>
          (case render C query_renderer
                  \<lparr>rc_start = start_t, rc_end = end_t, rc_execution_time = execution_time,
                   rc_snapshots = snapshots, rc_is_dev = is_dev, rc_kwargs = merged\<rparr> of
             Inl ex \<Rightarrow> Inl ex
           | Inr None \<Rightarrow> Inl (SQLMeshError (FailedToRender (name self) node_name))
           | Inr (Some rendered_query) \<Rightarrow> Inr rendered_query))"

text \<open>\<open>self._path or Path()\<close>.\<close>

definition path_or_default :: "'a AuditMixin_scheme \<Rightarrow> path" where
  "path_or_default self = (case private_path self of None \<Rightarrow> ''.'' | Some p \<Rightarrow> p)"

definition ModelAudit_create_query_renderer :: "ModelAudit \<Rightarrow> Model \<Rightarrow> QueryRenderer" where
  "ModelAudit_create_query_renderer self model =
     \<lparr>qr_query = query self,
      qr_dialect = (if dialect self \<noteq> [] then dialect self else model_dialect model),
      qr_macro_definitions = macro_definitions self,
      qr_path = path_or_default self,
      qr_jinja_macro_registry = jinja_macros self,
      qr_python_env = model_python_env model,
      qr_only_execution_time = Some (only_execution_time model)\<rparr>"

text \<open>\<open>t or c.EPOCH\<close>.\<close>

definition time_or :: "TimeLike option \<Rightarrow> TimeLike \<Rightarrow> TimeLike" where
  "time_or t d = (case t of None \<Rightarrow> d | Some v \<Rightarrow> if truthy v then v else d)"

definition target_node :: "target \<Rightarrow> Model" where
  "target_node snapshot_or_node =
     (case snapshot_or_node of PlainNode n \<Rightarrow> n | VersionedSnapshot s \<Rightarrow> snapshot_node s)"

definition this_model_name :: "target \<Rightarrow> bool \<Rightarrow> string" where
  "this_model_name snapshot_or_node is_dev =
     (case snapshot_or_node of
        PlainNode n \<Rightarrow> model_name n
      | VersionedSnapshot s \<Rightarrow> table_name s is_dev)"

text \<open>
  \<open>columns_to_types\<close>: the columns of the engine adapter among the keywords, \<open>None\<close> when
  there is none or when asking it raises.
\<close>

definition columns_to_types :: "(string \<rightharpoonup> kwval) \<Rightarrow> string \<Rightarrow> columns option" where
  "columns_to_types kwargs this_model =
     (case kwargs ''engine_adapter'' of Some (KAdapter f) \<Rightarrow> f this_model | _ \<Rightarrow> None)"

text \<open>The predicate \<open>where\<close> of \<open>ModelAudit.render_query\<close>.\<close>

definition time_predicate ::
  "'h collab \<Rightarrow> Model \<Rightarrow> TimeLike option \<Rightarrow> TimeLike option \<Rightarrow> columns option \<Rightarrow> expr option" where
  "time_predicate C node start_t end_t cols =
     (case time_column node of
        Some tc \<Rightarrow>
          Some (Between (Column tc)
                  (convert_to_time_column C node (time_or start_t (EPOCH C)) cols)
                  (convert_to_time_column C node (time_or end_t (EPOCH C)) cols))
      | None \<Rightarrow> None)"

text \<open>
  \<open>extra_kwargs["this_model"]\<close>:
  \<open>exp.select("*").from_(quoted_model_name).where(where).subquery()\<close>.
\<close>

definition this_model_subquery ::
  "'h collab \<Rightarrow> ModelAudit \<Rightarrow> target \<Rightarrow> TimeLike option \<Rightarrow> TimeLike option \<Rightarrow> bool \<Rightarrow>
   (string \<rightharpoonup> kwval) \<Rightarrow> expr" where
  "this_model_subquery C self snapshot_or_node start_t end_t is_dev kwargs =
     (let this_model = this_model_name snapshot_or_node is_dev;
          where_p = time_predicate C (target_node snapshot_or_node) start_t end_t
                      (columns_to_types kwargs this_model);
          quoted_model_name = quoted_table C this_model (dialect self)
      in Subquery (Select [Star] (Some quoted_model_name) where_p))"

text \<open>The dictionary \<open>{**extra_kwargs, **kwargs}\<close> passed on to \<open>super().render_query\<close>.\<close>

definition ModelAudit_kwargs ::
  "'h collab \<Rightarrow> ModelAudit \<Rightarrow> target \<Rightarrow> TimeLike option \<Rightarrow> TimeLike option \<Rightarrow> bool \<Rightarrow>
   (string \<rightharpoonup> kwval) \<Rightarrow> (string \<rightharpoonup> kwval)" where
  "ModelAudit_kwargs C self snapshot_or_node start_t end_t is_dev kwargs =
     [''this_model'' \<mapsto> KExpr (this_model_subquery C self snapshot_or_node start_t end_t is_dev kwargs)]
       ++ kwargs"

definition ModelAudit_render_query ::
  "'h collab \<Rightarrow> ModelAudit \<Rightarrow> target \<Rightarrow> TimeLike option \<Rightarrow> TimeLike option \<Rightarrow> TimeLike option \<Rightarrow>
   (string \<times> Snapshot) list option \<Rightarrow> bool \<Rightarrow> (string \<rightharpoonup> kwval) \<Rightarrow> error + expr" where
  "ModelAudit_render_query C self snapshot_or_node start_t end_t execution_time snapshots
     is_dev kwargs =
     AuditMixin_render_query C self
       (ModelAudit_create_query_renderer self (target_node snapshot_or_node))
       (model_name (target_node snapshot_or_node))
       start_t end_t execution_time snapshots is_dev
       (ModelAudit_kwargs C self snapshot_or_node start_t end_t is_dev kwargs)"

subsection \<open>Standalone audits\<close>

text \<open>
  \<open>StandaloneAudit\<close>: the audit fields, the fields of \<open>_Node\<close> that the metadata hash
  reads, and its own. \<open>private_depends_on\<close> is the cache \<open>_depends_on\<close>.
\<close>

record StandaloneAudit = AuditMixin +
  owner :: "string option"
  description :: "string option"
  tags :: "string list"
  stamp :: "string option"
  depends_on_opt :: "string set option"
  hash_raw_query :: bool
  python_env_opt :: "(string \<times> Executable) list option"
  private_depends_on :: "string set option"

definition node_root_validator :: "StandaloneAudit \<Rightarrow> error + StandaloneAudit" where
  "node_root_validator values =
     (if blocking values then Inl (AuditConfigError (StandaloneBlocking (name values)) None)
      else Inr values)"

text \<open>
  The constructor, for the keyword \<open>blocking\<close>: \<open>validated\<close> holds the validated values of the
  other fields, \<open>blocking\<close> is absent (the default \<open>False\<close>) or goes through
  \<open>bool_validator\<close>, and \<open>_node_root_validator\<close> runs on the values after that.
\<close>

definition StandaloneAudit_init ::
  "'h collab \<Rightarrow> StandaloneAudit \<Rightarrow> pyval option \<Rightarrow> error + StandaloneAudit" where
  "StandaloneAudit_init C validated blocking_kw =
     sum_bind (bool_field C False blocking_kw)
       (\<lambda>b. node_root_validator (validated\<lparr>blocking := b\<rparr>))"

definition python_env :: "StandaloneAudit \<Rightarrow> (string \<times> Executable) list" where
  "python_env self = (case python_env_opt self of None \<Rightarrow> [] | Some env \<Rightarrow> env)"


definition StandaloneAudit_create_query_renderer ::
  "StandaloneAudit \<Rightarrow> StandaloneAudit \<Rightarrow> QueryRenderer" where
  "StandaloneAudit_create_query_renderer self audit =
     \<lparr>qr_query = query self,
      qr_dialect = dialect self,
      qr_macro_definitions = macro_definitions self,
      qr_path = path_or_default self,
      qr_jinja_macro_registry = jinja_macros self,
      qr_python_env = python_env audit,
      qr_only_execution_time = None\<rparr>"

definition StandaloneAudit_render_query ::
  "'h collab \<Rightarrow> StandaloneAudit \<Rightarrow> StandaloneAudit \<Rightarrow> TimeLike option \<Rightarrow> TimeLike option \<Rightarrow>
   TimeLike option \<Rightarrow> (string \<times> Snapshot) list option \<Rightarrow> bool \<Rightarrow> (string \<rightharpoonup> kwval) \<Rightarrow>
   error + expr" where
  "StandaloneAudit_render_query C self node start_t end_t execution_time snapshots is_dev kwargs =
     AuditMixin_render_query C self (StandaloneAudit_create_query_renderer self node) (name node)
       start_t end_t execution_time snapshots is_dev kwargs"

text \<open>\<open>self.render_query(self)\<close>.\<close>

definition render_self :: "'h collab \<Rightarrow> StandaloneAudit \<Rightarrow> error + expr" where
  "render_self C self =
     StandaloneAudit_render_query C self self None None None None False Map.empty"

text \<open>
  The property \<open>depends_on\<close>. It returns its value or raises, the object as it is left,
  and the number of times it called the renderer. \<open>self.depends_on_ or set()\<close> is the
  declared set itself when that is not empty, so the updates \<open>|=\<close> and \<open>-=\<close> then change
  \<open>depends_on_\<close> too. The cache is assigned before the query is rendered.
\<close>

definition depends_on ::
  "'h collab \<Rightarrow> StandaloneAudit \<Rightarrow> (error + string set) \<times> StandaloneAudit \<times> nat" where
  "depends_on C self =
     (case private_depends_on self of
        Some s \<Rightarrow> (Inr s, self, 0)
      | None \<Rightarrow>
          let declared = (case depends_on_opt self of None \<Rightarrow> {} | Some s \<Rightarrow> s);
              self1 = self\<lparr>private_depends_on := Some declared\<rparr>
          in case render_self C self1 of
               Inl ex \<Rightarrow> (Inl ex, self1, 1)
             | Inr q \<Rightarrow>
                 let s = (declared \<union> find_tables C q (dialect self1)) - {name self1};
                     self2 = self1\<lparr>private_depends_on := Some s\<rparr>
                 in (Inr s,
                     if declared \<noteq> {} then self2\<lparr>depends_on_opt := Some s\<rparr> else self2,
                     1))"


text \<open>The nodes a standalone audit can be compared with.\<close>

datatype node = AuditNode StandaloneAudit | ModelNode Model

text \<open>
  Modelled from the spec: \<open>d.text_diff\<close> (\<open>sqlmesh.core.dialect\<close>) is not part of this
  module: a unified line-level diff between the canonical SQL text of the two queries in
  the given dialect.
\<close>

definition d_text_diff :: "'h collab \<Rightarrow> expr \<Rightarrow> expr \<Rightarrow> string \<Rightarrow> string" where
  "d_text_diff C a b dial = unified_diff C (canonical_sql C a dial) (canonical_sql C b dial)"

definition text_diff :: "'h collab \<Rightarrow> StandaloneAudit \<Rightarrow> node \<Rightarrow> error + string" where
  "text_diff C self other =
     (case other of
        AuditNode b \<Rightarrow> Inr (d_text_diff C (query self) (query b) (dialect self))
      | ModelNode m \<Rightarrow> Inl (SQLMeshError (CannotDiff (name self) (model_name m))))"

subsection \<open>Notions of the specification\<close>

text \<open>
  A block: a definition header followed by statements that are not headers. The
  definitions a sequence of loads yields: those before the first failure, and that
  failure.
\<close>

definition is_block :: "expr list \<Rightarrow> bool" where
  "is_block b =
     (case b of [] \<Rightarrow> False | h # rest \<Rightarrow> is_Audit h \<and> list_all (\<lambda>e. \<not> is_Audit e) rest)"

fun yield_all :: "(error + 'a) list \<Rightarrow> 'a list \<times> error option" where
  "yield_all [] = ([], None)"
| "yield_all (Inl ex # rs) = ([], Some ex)"
| "yield_all (Inr a # rs) = (case yield_all rs of (ys, r) \<Rightarrow> (a # ys, r))"





subsection \<open>Sample collaborators and objects\<close>

text \<open>
  Small stand-ins for the collaborators, to run the definitions on concrete inputs:
  the renderer returns the query as it is, and nothing for a Jinja query; the digest of
  a sequence is the sequence; \<open>breakpoint()\<close> returns.
\<close>

definition sample_sql :: "expr \<Rightarrow> string" where
  "sample_sql q =
     (case q of
        Select ps (Some (Table t)) w \<Rightarrow> ''SELECT * FROM '' @ t
      | JinjaQuery s \<Rightarrow> s
      | _ \<Rightarrow> [])"

definition sample_collab :: "string option list collab" where
  "sample_collab =
     \<lparr>bool_validator =
        (\<lambda>v. case v of
                PBool b \<Rightarrow> Inr b
              | PExpr (Boolean b) \<Rightarrow> Inr b
              | _ \<Rightarrow> Inl (ValidationError ''bool'')),
      expression_validator = Inr,
      py_str = (\<lambda>v. ''value''),
      str_env = (\<lambda>env. concat (map (\<lambda>x. fst x @ ''='' @ payload (snd x) @ '';'') env)),
      EPOCH = TimeDate 1970 1 1,
      convert_to_time_column =
        (\<lambda>m t cols. case t of
                       TimeStr s \<Rightarrow> Literal s
                     | TimeNum n \<Rightarrow> Literal ''number''
                     | TimeDate y mo d \<Rightarrow> Literal (if y = 1970 then ''1970-01-01'' else ''date'')),
      quoted_table = (\<lambda>n d. Table n),
      render = (\<lambda>r call. case qr_query r of JinjaQuery s \<Rightarrow> Inr None | q \<Rightarrow> Inr (Some q)),
      find_tables =
        (\<lambda>q d. case q of Select ps (Some (Table t)) w \<Rightarrow> {t} | _ \<Rightarrow> {}),
      sql = sample_sql,
      canonical_sql = (\<lambda>q d. sample_sql q),
      unified_diff = (\<lambda>a b. if a = b then [] else ''-'' @ a @ ''+'' @ b),
      hash_data = (\<lambda>data. data),
      breakpointhook = None\<rparr>"

definition sample_query :: expr where
  "sample_query = Select [Star] (Some (Table ''orders'')) None"

definition sample_header :: expr where
  "sample_header =
     Audit [(''name'', Some (Literal ''orders_not_null'')), (''blocking'', Some (Boolean True))]"

definition sample_model :: Model where
  "sample_model =
     \<lparr>model_name = ''db.orders'', model_dialect = ''duckdb'', time_column = Some ''ds'',
      model_python_env = [], only_execution_time = False\<rparr>"

definition sample_audit :: ModelAudit where
  "sample_audit =
     \<lparr>name = ''orders_not_null'', dialect = [], skip = False, blocking = True,
      query = sample_query, defaults = [(''threshold'', Literal ''1'')],
      expressions_opt = Some [MacroDef ''m'' (Literal ''1''), Statement ''SET x = 1''],
      jinja_macros = JinjaMacroRegistry [], private_path = None\<rparr>"

definition sample_standalone :: StandaloneAudit where
  "sample_standalone =
     \<lparr>name = ''audit_a'', dialect = [], skip = False, blocking = False,
      query = sample_query, defaults = [],
      expressions_opt = Some [MacroDef ''m'' (Literal ''1''), Statement ''SET x = 1''],
      jinja_macros = JinjaMacroRegistry [], private_path = None,
      owner = Some ''amy'', description = None, tags = [''b'', ''a''], stamp = None,
      depends_on_opt = Some {''audit_a'', ''customers''}, hash_raw_query = False,
      python_env_opt = None, private_depends_on = None\<rparr>"






section \<open>Verified properties\<close>

lemma loop_no_header:
  "list_all (\<lambda>e. \<not> is_Audit e) xs \<Longrightarrow>
   load_multiple_loop C p d blk (xs @ rest) = load_multiple_loop C p d (blk @ xs) rest"
  by (induction xs arbitrary: blk) simp_all

lemma loop_blocks:
  "list_all is_block bs \<Longrightarrow> blk \<noteq> [] \<Longrightarrow>
   load_multiple_loop C p d blk (concat bs) = yield_all (load C blk p d # map (\<lambda>b. load C b p d) bs)"
proof (induction bs arbitrary: blk)
  case Nil
  then show ?case by (simp split: sum.splits)
next
  case (Cons b bs)
  from Cons.prems obtain h rest where b: "b = h # rest" and h: "is_Audit h"
    and rest: "list_all (\<lambda>e. \<not> is_Audit e) rest"
    by (auto simp: is_block_def split: list.splits)
  have "load_multiple_loop C p d [h] (rest @ concat bs) = load_multiple_loop C p d ([h] @ rest) (concat bs)"
    using rest by (rule loop_no_header)
  also have "\<dots> = yield_all (load C b p d # map (\<lambda>b. load C b p d) bs)"
    using Cons.IH[of "[h] @ rest"] Cons.prems b by simp
  finally show ?case using h Cons.prems(2) b by (simp split: sum.splits)
qed

lemma load_multiple_yield_all:
  assumes "bs \<noteq> []" and "list_all is_block bs"
  shows "load_multiple C (concat bs) p d = yield_all (map (\<lambda>b. load C b p d) bs)"
proof -
  from assms obtain b bs' where bs: "bs = b # bs'" by (cases bs) auto
  from assms bs obtain h rest where b: "b = h # rest" and h: "is_Audit h"
    and rest: "list_all (\<lambda>e. \<not> is_Audit e) rest"
    by (auto simp: is_block_def split: list.splits)
  have "load_multiple C (concat bs) p d = load_multiple_loop C p d [h] (rest @ concat bs')"
    by (simp add: load_multiple_def bs b)
  also have "\<dots> = load_multiple_loop C p d ([h] @ rest) (concat bs')"
    using rest by (rule loop_no_header)
  also have "\<dots> = yield_all (load C b p d # map (\<lambda>b. load C b p d) bs')"
    using loop_blocks[of bs' "[h] @ rest" C p d] assms(2) bs b by simp
  finally show ?thesis by (simp add: bs)
qed

lemma yield_all_ok:
  "\<forall>r \<in> set rs. \<not> isl r \<Longrightarrow> yield_all rs = (map projr rs, None)"
  by (induction rs rule: yield_all.induct) auto

lemma yield_all_fail:
  "k < length rs \<Longrightarrow> \<forall>j<k. \<not> isl (rs ! j) \<Longrightarrow> isl (rs ! k) \<Longrightarrow>
   yield_all rs = (map projr (take k rs), Some (projl (rs ! k)))"
proof (induction rs arbitrary: k rule: yield_all.induct)
  case 1
  then show ?case by simp
next
  case (2 ex rs)
  then show ?case by (cases k) auto
next
  case (3 a rs)
  show ?case
  proof (cases k)
    case 0
    with 3 show ?thesis by simp
  next
    case (Suc k')
    have "yield_all rs = (map projr (take k' rs), Some (projl (rs ! k')))"
      using 3 Suc by (intro "3.IH") auto
    then show ?thesis using Suc by simp
  qed
qed

text \<open>
  Claim C5. For a statement list made of \<open>N \<ge> 1\<close> blocks, each a definition header
  followed by statements that are not headers, \<open>load_multiple\<close> loads the blocks in
  order. When every block loads, it yields exactly the \<open>N\<close> definitions, the \<open>i\<close>-th
  being the load of the statements of the \<open>i\<close>-th block. When block \<open>k\<close> is the first
  that fails to load, it yields the definitions of the \<open>k\<close> blocks before it and ends
  with the error of that block: nothing is yielded after it.
\<close>
theorem load_multiple_blocks:
  assumes "bs \<noteq> []" and "list_all is_block bs"
  shows "((\<forall>b \<in> set bs. \<not> isl (load C b p d)) \<longrightarrow>
            load_multiple C (concat bs) p d = (map (\<lambda>b. projr (load C b p d)) bs, None))
       \<and> (\<forall>k < length bs.
            (\<forall>j < k. \<not> isl (load C (bs ! j) p d)) \<and> isl (load C (bs ! k) p d) \<longrightarrow>
            load_multiple C (concat bs) p d =
              (map (\<lambda>b. projr (load C b p d)) (take k bs), Some (projl (load C (bs ! k) p d))))"
proof (intro conjI impI allI)
  assume ok: "\<forall>b \<in> set bs. \<not> isl (load C b p d)"
  have "yield_all (map (\<lambda>b. load C b p d) bs) = (map projr (map (\<lambda>b. load C b p d) bs), None)"
    using ok by (intro yield_all_ok) simp
  then show "load_multiple C (concat bs) p d = (map (\<lambda>b. projr (load C b p d)) bs, None)"
    using load_multiple_yield_all[OF assms, of C p d] by (simp add: comp_def)
next
  fix k
  assume k: "k < length bs"
    and f: "(\<forall>j < k. \<not> isl (load C (bs ! j) p d)) \<and> isl (load C (bs ! k) p d)"
  let ?rs = "map (\<lambda>b. load C b p d) bs"
  have "yield_all ?rs = (map projr (take k ?rs), Some (projl (?rs ! k)))"
    using k f by (intro yield_all_fail) auto
  then show "load_multiple C (concat bs) p d =
      (map (\<lambda>b. projr (load C b p d)) (take k bs), Some (projl (load C (bs ! k) p d)))"
    using load_multiple_yield_all[OF assms, of C p d] k by (simp add: take_map comp_def)
qed

lemma sample_load_1:
  "load sample_collab [sample_header, Statement ''x'', sample_query] ''audits.sql'' None =
     Inr \<lparr>name = ''orders_not_null'', dialect = [], skip = False, blocking = True,
      query = sample_query, defaults = [],
      expressions_opt = Some [Statement ''x''],
      jinja_macros = JinjaMacroRegistry [],
      private_path = Some ''audits.sql''\<rparr>"
  by code_simp

lemma sample_load_2:
  "load sample_collab [sample_header, Statement ''x''] ''audits.sql'' None =
     Inl (AuditConfigError MissingSelectQuery (Some ''audits.sql''))"
  by code_simp

lemma sample_load_3:
  "load sample_collab [sample_header, sample_query] ''audits.sql'' None =
     Inr \<lparr>name = ''orders_not_null'', dialect = [], skip = False, blocking = True,
      query = sample_query, defaults = [],
      expressions_opt = Some [],
      jinja_macros = JinjaMacroRegistry [],
      private_path = Some ''audits.sql''\<rparr>"
  by code_simp

theorem load_multiple_blocks_witness:
  "load_multiple sample_collab
      (concat [[sample_header, Statement ''x'', sample_query], [sample_header, sample_query]])
      ''audits.sql'' None =
     ([\<lparr>name = ''orders_not_null'', dialect = [], skip = False, blocking = True,
        query = sample_query, defaults = [], expressions_opt = Some [Statement ''x''],
        jinja_macros = JinjaMacroRegistry [], private_path = Some ''audits.sql''\<rparr>,
       \<lparr>name = ''orders_not_null'', dialect = [], skip = False, blocking = True,
        query = sample_query, defaults = [], expressions_opt = Some [],
        jinja_macros = JinjaMacroRegistry [], private_path = Some ''audits.sql''\<rparr>], None)
   \<and> load_multiple sample_collab
      (concat [[sample_header, sample_query], [sample_header, Statement ''x''],
               [sample_header, sample_query]])
      ''audits.sql'' None =
     ([\<lparr>name = ''orders_not_null'', dialect = [], skip = False, blocking = True,
        query = sample_query, defaults = [], expressions_opt = Some [],
        jinja_macros = JinjaMacroRegistry [], private_path = Some ''audits.sql''\<rparr>],
      Some (AuditConfigError MissingSelectQuery (Some ''audits.sql'')))"
proof -
  let ?b1 = "[sample_header, Statement ''x'', sample_query]"
  let ?b2 = "[sample_header, sample_query]"
  let ?b3 = "[sample_header, Statement ''x'']"
  have blocks: "list_all is_block [?b1, ?b2]" "list_all is_block [?b2, ?b3, ?b2]"
    by (simp_all add: is_block_def sample_header_def sample_query_def)
  have ok: "\<forall>b \<in> set [?b1, ?b2]. \<not> isl (load sample_collab b ''audits.sql'' None)"
    by (simp add: sample_load_1 sample_load_3)
  have bad: "(\<forall>j < 1. \<not> isl (load sample_collab ([?b2, ?b3, ?b2] ! j) ''audits.sql'' None))
      \<and> isl (load sample_collab ([?b2, ?b3, ?b2] ! 1) ''audits.sql'' None)"
    by (simp add: sample_load_2 sample_load_3)
  have one: "(1::nat) < length [?b2, ?b3, ?b2]" by simp
  have nonempty: "[?b1, ?b2] \<noteq> []" "[?b2, ?b3, ?b2] \<noteq> []" by simp_all
  from load_multiple_blocks [OF nonempty(1) blocks(1), of sample_collab "''audits.sql''" None] ok
  have first: "load_multiple sample_collab (concat [?b1, ?b2]) ''audits.sql'' None =
      (map (\<lambda>b. projr (load sample_collab b ''audits.sql'' None)) [?b1, ?b2], None)"
    by blast
  from load_multiple_blocks [OF nonempty(2) blocks(2), of sample_collab "''audits.sql''" None]
    one bad
  have second: "load_multiple sample_collab (concat [?b2, ?b3, ?b2]) ''audits.sql'' None =
      (map (\<lambda>b. projr (load sample_collab b ''audits.sql'' None)) (take 1 [?b2, ?b3, ?b2]),
       Some (projl (load sample_collab ([?b2, ?b3, ?b2] ! 1) ''audits.sql'' None)))"
    by blast
  show ?thesis
    using first second by (simp add: sample_load_1 sample_load_2 sample_load_3)
qed

text \<open>
  Claim C1. Constructing a \<open>StandaloneAudit\<close> with a \<open>blocking\<close> keyword that validates
  to true raises the configuration error naming the audit; construction fails for every
  \<open>blocking\<close> keyword that does not validate to false, so no blocking standalone
  audit is produced; with \<open>blocking\<close> unset construction succeeds and the object has
  \<open>blocking = False\<close>.
\<close>
theorem standalone_never_blocking:
  "(bool_validator C v = Inr True \<longrightarrow>
      StandaloneAudit_init C validated (Some v) =
        Inl (AuditConfigError (StandaloneBlocking (name validated)) None))
   \<and> (bool_validator C v \<noteq> Inr False \<longrightarrow> isl (StandaloneAudit_init C validated (Some v)))
   \<and> StandaloneAudit_init C validated None = Inr (validated\<lparr>blocking := False\<rparr>)"
proof -
  have "isl (StandaloneAudit_init C validated (Some v))" if "bool_validator C v \<noteq> Inr False"
  proof (cases "bool_validator C v")
    case (Inl ex)
    then show ?thesis by (simp add: StandaloneAudit_init_def bool_field_def)
  next
    case (Inr b)
    with that have "b" by simp
    with Inr show ?thesis
      by (simp add: StandaloneAudit_init_def bool_field_def node_root_validator_def)
  qed
  then show ?thesis
    by (simp add: StandaloneAudit_init_def bool_field_def node_root_validator_def)
qed

theorem standalone_never_blocking_witness:
  "StandaloneAudit_init sample_collab sample_standalone (Some (PBool True)) =
     Inl (AuditConfigError (StandaloneBlocking ''audit_a'') None)
   \<and> isl (StandaloneAudit_init sample_collab sample_standalone (Some (PStr ''yes'')))
   \<and> StandaloneAudit_init sample_collab sample_standalone None =
       Inr (sample_standalone\<lparr>blocking := False\<rparr>)"
  using standalone_never_blocking [of sample_collab "PBool True" sample_standalone]
    standalone_never_blocking [of sample_collab "PStr ''yes''" sample_standalone]
  by (simp add: sample_collab_def sample_standalone_def)

text \<open>
  Claim C9. \<open>text_diff\<close> of a standalone audit against another standalone audit
  returns the unified line diff of the canonical SQL text of the two raw queries
  (\<open>query\<close>, not a rendered query), both taken in the dialect of the first; against
  a node that is not a standalone audit it raises an error.
\<close>
theorem text_diff_standalone_only:
  "text_diff C a (AuditNode b) =
     Inr (unified_diff C (canonical_sql C (query a) (dialect a))
            (canonical_sql C (query b) (dialect a)))
   \<and> text_diff C a (ModelNode m) = Inl (SQLMeshError (CannotDiff (name a) (model_name m)))"
  by (simp add: text_diff_def d_text_diff_def)

lemma macro_definitions_filtered:
  "macro_definitions (self\<lparr>expressions_opt := Some (filter is_MacroDef (expressions self))\<rparr>) =
     macro_definitions self"
  by (simp add: macro_definitions_def expressions_def)

lemma AuditMixin_render_query_statements:
  "AuditMixin_render_query C (self\<lparr>expressions_opt := x\<rparr>) r n st en ex sn dev kw =
   AuditMixin_render_query C self r n st en ex sn dev kw"
  by (simp add: AuditMixin_render_query_def render_kwargs_def Let_def
      split: option.splits sum.splits)

lemma ModelAudit_kwargs_statements:
  "ModelAudit_kwargs C (self\<lparr>expressions_opt := x\<rparr>) t st en dev kw =
   ModelAudit_kwargs C self t st en dev kw"
  by (simp add: ModelAudit_kwargs_def this_model_subquery_def)

lemma ModelAudit_renderer_statements:
  "ModelAudit_create_query_renderer
     (self\<lparr>expressions_opt := Some (filter is_MacroDef (expressions self))\<rparr>) m =
   ModelAudit_create_query_renderer self m"
  by (simp add: ModelAudit_create_query_renderer_def macro_definitions_filtered
      path_or_default_def)

lemma StandaloneAudit_renderer_statements:
  "StandaloneAudit_create_query_renderer
     (self\<lparr>expressions_opt := Some (filter is_MacroDef (expressions self))\<rparr>) n =
   StandaloneAudit_create_query_renderer self n"
  by (simp add: StandaloneAudit_create_query_renderer_def macro_definitions_filtered
      path_or_default_def)

text \<open>
  Claim C10. The renderer of a \<open>ModelAudit\<close> and that of a \<open>StandaloneAudit\<close> receive
  as macro definitions exactly the extra statements that are macro definitions, in
  order; the other extra statements take no part in rendering: the result of
  \<open>render_query\<close> is the same when they are removed from the audit.
\<close>
theorem only_macro_definitions_rendered:
  "qr_macro_definitions (ModelAudit_create_query_renderer a m) =
     filter is_MacroDef (expressions a)
   \<and> qr_macro_definitions (StandaloneAudit_create_query_renderer s n) =
     filter is_MacroDef (expressions s)
   \<and> list_all is_MacroDef (qr_macro_definitions (ModelAudit_create_query_renderer a m))
   \<and> list_all is_MacroDef (qr_macro_definitions (StandaloneAudit_create_query_renderer s n))
   \<and> ModelAudit_render_query C a t st en ex sn dev kw =
     ModelAudit_render_query C
       (a\<lparr>expressions_opt := Some (filter is_MacroDef (expressions a))\<rparr>) t st en ex sn dev kw
   \<and> StandaloneAudit_render_query C s n st en ex sn dev kw =
     StandaloneAudit_render_query C
       (s\<lparr>expressions_opt := Some (filter is_MacroDef (expressions s))\<rparr>) n st en ex sn dev kw"
proof (intro conjI)
  show "qr_macro_definitions (ModelAudit_create_query_renderer a m) =
      filter is_MacroDef (expressions a)"
    by (simp add: ModelAudit_create_query_renderer_def macro_definitions_def)
  show "qr_macro_definitions (StandaloneAudit_create_query_renderer s n) =
      filter is_MacroDef (expressions s)"
    by (simp add: StandaloneAudit_create_query_renderer_def macro_definitions_def)
  show "list_all is_MacroDef (qr_macro_definitions (ModelAudit_create_query_renderer a m))"
    by (simp add: ModelAudit_create_query_renderer_def macro_definitions_def list_all_iff)
  show "list_all is_MacroDef (qr_macro_definitions (StandaloneAudit_create_query_renderer s n))"
    by (simp add: StandaloneAudit_create_query_renderer_def macro_definitions_def list_all_iff)
  show "ModelAudit_render_query C a t st en ex sn dev kw =
      ModelAudit_render_query C
        (a\<lparr>expressions_opt := Some (filter is_MacroDef (expressions a))\<rparr>) t st en ex sn dev kw"
    unfolding ModelAudit_render_query_def
    by (simp only: AuditMixin_render_query_statements ModelAudit_kwargs_statements
        ModelAudit_renderer_statements)
  show "StandaloneAudit_render_query C s n st en ex sn dev kw =
      StandaloneAudit_render_query C
        (s\<lparr>expressions_opt := Some (filter is_MacroDef (expressions s))\<rparr>) n st en ex sn dev kw"
    unfolding StandaloneAudit_render_query_def
    by (simp only: AuditMixin_render_query_statements StandaloneAudit_renderer_statements)
qed

theorem only_macro_definitions_rendered_witness:
  "qr_macro_definitions (ModelAudit_create_query_renderer sample_audit sample_model) =
     [MacroDef ''m'' (Literal ''1'')]
   \<and> qr_macro_definitions (StandaloneAudit_create_query_renderer sample_standalone sample_standalone) =
     [MacroDef ''m'' (Literal ''1'')]"
  using only_macro_definitions_rendered [of sample_audit sample_model sample_standalone
      sample_standalone sample_collab "PlainNode sample_model" None None None None False Map.empty]
  by (simp add: sample_audit_def sample_standalone_def expressions_def)

text \<open>
  Claim C8. When the audited node declares no time column, the synthesized \<open>this_model\<close>
  subquery is \<open>SELECT * FROM\<close> the quoted table with no predicate. When it declares
  the time column \<open>tc\<close>, the predicate is \<open>tc BETWEEN\<close> the node's
  \<open>convert_to_time_column\<close> of \<open>start or EPOCH\<close> \<open>AND\<close> that of \<open>end or EPOCH\<close>, where
  \<open>t or EPOCH\<close> is \<open>EPOCH\<close> when \<open>t\<close> is absent or false, and \<open>t\<close> otherwise.
\<close>
theorem this_model_time_predicate:
  "(time_column (target_node t) = None \<longrightarrow>
      this_model_subquery C a t st en dev kw =
        Subquery (Select [Star] (Some (quoted_table C (this_model_name t dev) (dialect a))) None))
   \<and> (time_column (target_node t) = Some tc \<longrightarrow>
      this_model_subquery C a t st en dev kw =
        Subquery (Select [Star] (Some (quoted_table C (this_model_name t dev) (dialect a)))
          (Some (Between (Column tc)
             (convert_to_time_column C (target_node t) (time_or st (EPOCH C))
                (columns_to_types kw (this_model_name t dev)))
             (convert_to_time_column C (target_node t) (time_or en (EPOCH C))
                (columns_to_types kw (this_model_name t dev)))))))
   \<and> time_or None (EPOCH C) = EPOCH C
   \<and> (truthy v \<longrightarrow> time_or (Some v) (EPOCH C) = v)
   \<and> (\<not> truthy v \<longrightarrow> time_or (Some v) (EPOCH C) = EPOCH C)"
  by (simp add: this_model_subquery_def time_predicate_def time_or_def Let_def)

theorem this_model_time_predicate_witness:
  "this_model_subquery sample_collab sample_audit
      (PlainNode (sample_model\<lparr>time_column := None\<rparr>)) None None False Map.empty =
     Subquery (Select [Star] (Some (Table ''db.orders'')) None)
   \<and> this_model_subquery sample_collab sample_audit (PlainNode sample_model)
      (Some (TimeStr ''2024-01-01'')) (Some (TimeNum 0)) False Map.empty =
     Subquery (Select [Star] (Some (Table ''db.orders''))
       (Some (Between (Column ''ds'') (Literal ''2024-01-01'') (Literal ''1970-01-01''))))"
  using this_model_time_predicate [of "PlainNode (sample_model\<lparr>time_column := None\<rparr>)"
      sample_collab sample_audit None None False Map.empty "''ds''" "TimeStr ''2024-01-01''"]
    this_model_time_predicate [of "PlainNode sample_model" sample_collab sample_audit
      "Some (TimeStr ''2024-01-01'')" "Some (TimeNum 0)" False Map.empty "''ds''" "TimeNum 0"]
  by (simp add: sample_collab_def sample_audit_def sample_model_def target_node_def
      this_model_name_def columns_to_types_def time_or_def)

text \<open>
  Claim C6, as the code has it. The keyword context a \<open>ModelAudit\<close> passes to the
  renderer is \<open>{**defaults, this_model: subquery, **kwargs}\<close>: a keyword of the caller
  wins for every key it gives, \<open>this_model\<close> included; when the caller gives no
  \<open>this_model\<close> the synthesized subquery is used, whatever the defaults declare for
  that key; every other key the caller does not give comes from the defaults. A
  successful render is the renderer's result on this context.
\<close>
theorem render_context_precedence:
  "(\<forall>k v. kw k = Some v \<longrightarrow>
      render_kwargs a (ModelAudit_kwargs C a t st en dev kw) k = Some v)
   \<and> (kw ''this_model'' = None \<longrightarrow>
      render_kwargs a (ModelAudit_kwargs C a t st en dev kw) ''this_model'' =
        Some (KExpr (this_model_subquery C a t st en dev kw)))
   \<and> (\<forall>k. kw k = None \<and> k \<noteq> ''this_model'' \<longrightarrow>
      render_kwargs a (ModelAudit_kwargs C a t st en dev kw) k =
        map_option KExpr (map_of (defaults a) k))
   \<and> (ModelAudit_render_query C a t st en ex sn dev kw = Inr q \<longrightarrow>
      render C (ModelAudit_create_query_renderer a (target_node t))
        \<lparr>rc_start = st, rc_end = en, rc_execution_time = ex, rc_snapshots = sn,
         rc_is_dev = dev,
         rc_kwargs = render_kwargs a (ModelAudit_kwargs C a t st en dev kw)\<rparr> = Inr (Some q))"
proof (intro conjI allI impI)
  fix k v
  assume "kw k = Some v"
  then show "render_kwargs a (ModelAudit_kwargs C a t st en dev kw) k = Some v"
    by (simp add: render_kwargs_def ModelAudit_kwargs_def map_add_def)
next
  assume "kw ''this_model'' = None"
  then show "render_kwargs a (ModelAudit_kwargs C a t st en dev kw) ''this_model'' =
      Some (KExpr (this_model_subquery C a t st en dev kw))"
    by (simp add: render_kwargs_def ModelAudit_kwargs_def map_add_def)
next
  fix k
  assume "kw k = None \<and> k \<noteq> ''this_model''"
  then show "render_kwargs a (ModelAudit_kwargs C a t st en dev kw) k =
      map_option KExpr (map_of (defaults a) k)"
    by (simp add: render_kwargs_def ModelAudit_kwargs_def map_add_def)
next
  assume "ModelAudit_render_query C a t st en ex sn dev kw = Inr q"
  then show "render C (ModelAudit_create_query_renderer a (target_node t))
      \<lparr>rc_start = st, rc_end = en, rc_execution_time = ex, rc_snapshots = sn,
       rc_is_dev = dev,
       rc_kwargs = render_kwargs a (ModelAudit_kwargs C a t st en dev kw)\<rparr> = Inr (Some q)"
    by (simp add: ModelAudit_render_query_def AuditMixin_render_query_def Let_def
        split: option.splits sum.splits)
qed

lemma sample_render:
  "ModelAudit_render_query sample_collab sample_audit (PlainNode sample_model) None None None
     None False [''this_model'' \<mapsto> KOther ''mine'', ''limit'' \<mapsto> KOther ''5''] =
   Inr sample_query"
  by (simp add: ModelAudit_render_query_def AuditMixin_render_query_def Let_def
      render_kwargs_def ModelAudit_kwargs_def named_render_parameters_def
      sample_collab_def sample_audit_def sample_query_def ModelAudit_create_query_renderer_def)

theorem render_context_precedence_witness:
  "render_kwargs sample_audit
     (ModelAudit_kwargs sample_collab sample_audit (PlainNode sample_model) None None False
        [''this_model'' \<mapsto> KOther ''mine'', ''limit'' \<mapsto> KOther ''5'']) ''this_model'' =
     Some (KOther ''mine'')
   \<and> render_kwargs sample_audit
     (ModelAudit_kwargs sample_collab sample_audit (PlainNode sample_model) None None False
        [''threshold'' \<mapsto> KOther ''9'']) ''this_model'' =
     Some (KExpr (this_model_subquery sample_collab sample_audit (PlainNode sample_model)
        None None False [''threshold'' \<mapsto> KOther ''9'']))
   \<and> render_kwargs sample_audit
     (ModelAudit_kwargs sample_collab sample_audit (PlainNode sample_model) None None False
        [''this_model'' \<mapsto> KOther ''mine'', ''limit'' \<mapsto> KOther ''5'']) ''threshold'' =
     Some (KExpr (Literal ''1''))
   \<and> render sample_collab
        (ModelAudit_create_query_renderer sample_audit (target_node (PlainNode sample_model)))
        \<lparr>rc_start = None, rc_end = None, rc_execution_time = None, rc_snapshots = None,
         rc_is_dev = False,
         rc_kwargs = render_kwargs sample_audit
           (ModelAudit_kwargs sample_collab sample_audit (PlainNode sample_model) None None False
              [''this_model'' \<mapsto> KOther ''mine'', ''limit'' \<mapsto> KOther ''5''])\<rparr> =
       Inr (Some sample_query)"
proof -
  let ?kw = "[''this_model'' \<mapsto> KOther ''mine'', ''limit'' \<mapsto> KOther ''5'']"
  let ?kw2 = "[''threshold'' \<mapsto> KOther ''9'']"
  note a = render_context_precedence [of ?kw sample_audit sample_collab "PlainNode sample_model"
      None None False None None sample_query]
  note b = render_context_precedence [of ?kw2 sample_audit sample_collab "PlainNode sample_model"
      None None False None None sample_query]
  have 1: "?kw ''this_model'' = Some (KOther ''mine'')" by simp
  have 2: "?kw2 ''this_model'' = None" by simp
  have 3: "?kw ''threshold'' = None \<and> ''threshold'' \<noteq> ''this_model''" by simp
  have 4: "map_option KExpr (map_of (defaults sample_audit) ''threshold'') =
      Some (KExpr (Literal ''1''))" by (simp add: sample_audit_def)
  from a 1 have c1: "render_kwargs sample_audit
     (ModelAudit_kwargs sample_collab sample_audit (PlainNode sample_model) None None False ?kw)
       ''this_model'' = Some (KOther ''mine'')" by blast
  from b 2 have c2: "render_kwargs sample_audit
     (ModelAudit_kwargs sample_collab sample_audit (PlainNode sample_model) None None False ?kw2)
       ''this_model'' = Some (KExpr (this_model_subquery sample_collab sample_audit
          (PlainNode sample_model) None None False ?kw2))" by blast
  from a 3 have c3: "render_kwargs sample_audit
     (ModelAudit_kwargs sample_collab sample_audit (PlainNode sample_model) None None False ?kw)
       ''threshold'' = map_option KExpr (map_of (defaults sample_audit) ''threshold'')" by blast
  from a sample_render have c4: "render sample_collab
        (ModelAudit_create_query_renderer sample_audit (target_node (PlainNode sample_model)))
        \<lparr>rc_start = None, rc_end = None, rc_execution_time = None, rc_snapshots = None,
         rc_is_dev = False,
         rc_kwargs = render_kwargs sample_audit
           (ModelAudit_kwargs sample_collab sample_audit (PlainNode sample_model) None None False
              ?kw)\<rparr> = Inr (Some sample_query)" by blast
  from c1 c2 c3 c4 4 show ?thesis by simp
qed

theorem render_context_precedence_counterexample:
  "render_kwargs sample_audit
     (ModelAudit_kwargs sample_collab sample_audit (PlainNode sample_model) None None False
        [''this_model'' \<mapsto> KOther ''mine'']) ''this_model''
   \<noteq> Some (KExpr (this_model_subquery sample_collab sample_audit (PlainNode sample_model)
        None None False [''this_model'' \<mapsto> KOther ''mine'']))"
  by (simp add: render_kwargs_def ModelAudit_kwargs_def)

lemma load_header:
  assumes "rest \<noteq> []"
  shows "load C (Audit props # rest) p d =
    (if missing_required_fields (insert ''query'' (set (map fst props))) \<noteq> {} then
       (case breakpointhook C of
          Some ex \<Rightarrow> Inl ex
        | None \<Rightarrow>
            Inl (AuditConfigError
                   (MissingRequiredFields
                      (missing_required_fields (insert ''query'' (set (map fst props)))))
                   (Some p)))
     else if extra_fields (insert ''query'' (set (map fst props))) \<noteq> {} then
       Inl (AuditConfigError
              (InvalidExtraFields (extra_fields (insert ''query'' (set (map fst props)))))
              (Some p))
     else if \<not> is_Subqueryable (last rest) then
       Inl (AuditConfigError MissingSelectQuery (Some p))
     else
       (case construct C (last rest) (butlast rest) (header_kwargs d props) of
          Inl ex \<Rightarrow> Inl (AuditConfigError (StrOf ex) (Some p))
        | Inr audit \<Rightarrow> Inr (audit\<lparr>private_path := Some p\<rparr>)))"
proof -
  have "\<not> length (Audit props # rest) < 2"
    using assms by (cases rest) simp_all
  then show ?thesis
    using assms
    by (simp add: load_def Let_def raise_config_error_at_def split: sum.splits option.splits)
qed

lemma load_missing_required_fails:
  assumes "rest \<noteq> []"
    and "missing_required_fields (insert ''query'' (set (map fst props))) \<noteq> {}"
  shows "isl (load C (Audit props # rest) p d)"
  unfolding load_header [OF assms(1)] using assms(2)
  by (simp split: option.splits)

text \<open>
  Claim C2, as the code has it. For a block of a header with properties \<open>props\<close> and at
  least one more statement, with \<open>P\<close> the names of the properties and \<open>query\<close>:
  \<open>missing_required_fields P = required - P\<close> and
  \<open>extra_fields P = P - (required \<union> optional)\<close>; when the first is empty and the second
  is not, \<open>load\<close> raises the configuration error that carries the second; \<open>load\<close>
  succeeds only if both are empty; and when both are empty it succeeds exactly when the
  last statement is a \<open>SELECT\<close>-class query and the constructor accepts the header's
  values. Which exception a block with missing required fields ends in is not part of
  the statement: the source calls \<open>breakpoint()\<close> on that path.
\<close>

theorem load_field_schema:
  assumes "rest \<noteq> []"
  shows "missing_required_fields (insert ''query'' (set (map fst props))) =
           required_fields - insert ''query'' (set (map fst props))
       \<and> extra_fields (insert ''query'' (set (map fst props))) =
           insert ''query'' (set (map fst props)) - (required_fields \<union> optional_fields)
       \<and> (missing_required_fields (insert ''query'' (set (map fst props))) = {}
            \<and> extra_fields (insert ''query'' (set (map fst props))) \<noteq> {} \<longrightarrow>
            load C (Audit props # rest) p d =
              Inl (AuditConfigError
                     (InvalidExtraFields
                        (extra_fields (insert ''query'' (set (map fst props)))))
                     (Some p)))
       \<and> (\<not> isl (load C (Audit props # rest) p d) \<longrightarrow>
            missing_required_fields (insert ''query'' (set (map fst props))) = {}
            \<and> extra_fields (insert ''query'' (set (map fst props))) = {})
       \<and> (missing_required_fields (insert ''query'' (set (map fst props))) = {}
            \<and> extra_fields (insert ''query'' (set (map fst props))) = {} \<longrightarrow>
            (\<not> isl (load C (Audit props # rest) p d) \<longleftrightarrow>
               is_Subqueryable (last rest)
               \<and> \<not> isl (construct C (last rest) (butlast rest) (header_kwargs d props))))"
proof (intro conjI impI)
  show "missing_required_fields (insert ''query'' (set (map fst props))) =
      required_fields - insert ''query'' (set (map fst props))"
    by (simp add: missing_required_fields_def)
  show "extra_fields (insert ''query'' (set (map fst props))) =
      insert ''query'' (set (map fst props)) - (required_fields \<union> optional_fields)"
    by (simp add: extra_fields_def)
  show "load C (Audit props # rest) p d =
      Inl (AuditConfigError
             (InvalidExtraFields (extra_fields (insert ''query'' (set (map fst props)))))
             (Some p))"
    if "missing_required_fields (insert ''query'' (set (map fst props))) = {}
        \<and> extra_fields (insert ''query'' (set (map fst props))) \<noteq> {}"
    unfolding load_header [OF assms] using that by simp
  show "missing_required_fields (insert ''query'' (set (map fst props))) = {}"
    if "\<not> isl (load C (Audit props # rest) p d)"
    using that load_missing_required_fails [OF assms, of props C p d] by blast
  show "extra_fields (insert ''query'' (set (map fst props))) = {}"
    if ok: "\<not> isl (load C (Audit props # rest) p d)"
  proof (rule ccontr)
    assume extra: "extra_fields (insert ''query'' (set (map fst props))) \<noteq> {}"
    have "missing_required_fields (insert ''query'' (set (map fst props))) = {}"
      using ok load_missing_required_fails [OF assms, of props C p d] by blast
    with extra have "isl (load C (Audit props # rest) p d)"
      unfolding load_header [OF assms] by simp
    with ok show False by simp
  qed
  show "(\<not> isl (load C (Audit props # rest) p d)) =
      (is_Subqueryable (last rest)
       \<and> \<not> isl (construct C (last rest) (butlast rest) (header_kwargs d props)))"
    if "missing_required_fields (insert ''query'' (set (map fst props))) = {}
        \<and> extra_fields (insert ''query'' (set (map fst props))) = {}"
    unfolding load_header [OF assms] using that by (simp split: sum.splits)
qed

lemma sample_fields_1:
  "missing_required_fields (insert ''query'' (set (map fst
      [(''name'', Some (Literal ''orders_not_null'')), (''blocking'', Some (Boolean True))]))) = {}"
  "extra_fields (insert ''query'' (set (map fst
      [(''name'', Some (Literal ''orders_not_null'')), (''blocking'', Some (Boolean True))]))) = {}"
  by code_simp+

lemma sample_fields_2:
  "extra_fields (insert ''query'' (set (map fst
      [(''name'', Some (Literal ''a'')), (''owner'', Some (Literal ''amy''))]))) = {''owner''}"
  "missing_required_fields (insert ''query'' (set (map fst
      [(''name'', Some (Literal ''a'')), (''owner'', Some (Literal ''amy''))]))) = {}"
  by code_simp+

lemma sample_load_4:
  "load sample_collab
     [Audit [(''name'', Some (Literal ''orders_not_null'')), (''blocking'', Some (Boolean True))],
      Statement ''x'', sample_query] ''audits.sql'' None =
     Inr \<lparr>name = ''orders_not_null'', dialect = [], skip = False, blocking = True,
      query = sample_query, defaults = [],
      expressions_opt = Some [Statement ''x''],
      jinja_macros = JinjaMacroRegistry [],
      private_path = Some ''audits.sql''\<rparr>"
  by code_simp

theorem load_field_schema_witness:
  "load sample_collab
       [Audit [(''name'', Some (Literal ''a'')), (''owner'', Some (Literal ''amy''))],
        sample_query] ''audits.sql'' None =
     Inl (AuditConfigError (InvalidExtraFields {''owner''}) (Some ''audits.sql''))
   \<and> missing_required_fields (insert ''query'' (set (map fst
        [(''name'', Some (Literal ''orders_not_null'')), (''blocking'', Some (Boolean True))]))) = {}
   \<and> extra_fields (insert ''query'' (set (map fst
        [(''name'', Some (Literal ''orders_not_null'')), (''blocking'', Some (Boolean True))]))) = {}
   \<and> is_Subqueryable sample_query
   \<and> \<not> isl (construct sample_collab sample_query [Statement ''x'']
        (header_kwargs None
           [(''name'', Some (Literal ''orders_not_null'')), (''blocking'', Some (Boolean True))]))"
proof -
  have ne: "[sample_query] \<noteq> []" "[Statement ''x'', sample_query] \<noteq> []" by simp_all
  note b = load_field_schema [OF ne(1),
      of "[(''name'', Some (Literal ''a'')), (''owner'', Some (Literal ''amy''))]"
      sample_collab "''audits.sql''" None]
  note c = load_field_schema [OF ne(2),
      of "[(''name'', Some (Literal ''orders_not_null'')), (''blocking'', Some (Boolean True))]"
      sample_collab "''audits.sql''" None]
  have ok: "\<not> isl (load sample_collab
     [Audit [(''name'', Some (Literal ''orders_not_null'')), (''blocking'', Some (Boolean True))],
      Statement ''x'', sample_query] ''audits.sql'' None)"
    by (simp add: sample_load_4)
  from b [unfolded sample_fields_2] have c1: "load sample_collab
       [Audit [(''name'', Some (Literal ''a'')), (''owner'', Some (Literal ''amy''))],
        sample_query] ''audits.sql'' None =
     Inl (AuditConfigError (InvalidExtraFields {''owner''}) (Some ''audits.sql''))"
    by simp
  from c ok have c2: "missing_required_fields (insert ''query'' (set (map fst
        [(''name'', Some (Literal ''orders_not_null'')), (''blocking'', Some (Boolean True))]))) = {}
   \<and> extra_fields (insert ''query'' (set (map fst
        [(''name'', Some (Literal ''orders_not_null'')), (''blocking'', Some (Boolean True))]))) = {}"
    by blast
  from c c2 ok have c3: "is_Subqueryable (last [Statement ''x'', sample_query])
   \<and> \<not> isl (construct sample_collab (last [Statement ''x'', sample_query])
        (butlast [Statement ''x'', sample_query])
        (header_kwargs None
           [(''name'', Some (Literal ''orders_not_null'')), (''blocking'', Some (Boolean True))]))"
    by blast
  from c1 c2 c3 show ?thesis by simp
qed

lemma sample_load_5:
  "load sample_collab [Audit [(''name'', Some (Literal ''a''))], JinjaQuery ''{{ q }}'']
     ''audits.sql'' None = Inl (AuditConfigError MissingSelectQuery (Some ''audits.sql''))"
  by code_simp

lemma sample_fields_3:
  "missing_required_fields (insert ''query'' (set (map fst [(''name'', Some (Literal ''a''))]))) = {}"
  "extra_fields (insert ''query'' (set (map fst [(''name'', Some (Literal ''a''))]))) = {}"
  by code_simp+

theorem load_field_schema_counterexample:
  "missing_required_fields (insert ''query'' (set (map fst [(''name'', Some (Literal ''a''))]))) = {}
   \<and> extra_fields (insert ''query'' (set (map fst [(''name'', Some (Literal ''a''))]))) = {}
   \<and> isl (load sample_collab [Audit [(''name'', Some (Literal ''a''))], JinjaQuery ''{{ q }}'']
        ''audits.sql'' None)"
  using sample_fields_3 sample_load_5 by simp

lemma lower_samples:
  "lower ''orders_not_null'' = ''orders_not_null''"
  "lower ''snowflake'' = ''snowflake''"
  by code_simp+

lemma sample_header_kwargs:
  "header_kwargs (Some ''snowflake'')
     [(''name'', Some (Literal ''orders_not_null'')), (''blocking'', Some (Boolean True))] =
   [''dialect'' \<mapsto> PStr ''snowflake'', ''blocking'' \<mapsto> PExpr (Boolean True),
    ''name'' \<mapsto> PExpr (Literal ''orders_not_null'')]"
  by (rule ext) (simp add: header_kwargs_def map_add_def)

text \<open>
  Claim C7, as the code has it. Loading a block whose header declares
  \<open>name = 'orders_not_null'\<close> and \<open>blocking = true\<close> and no dialect, with the loader's
  default dialect \<open>"snowflake"\<close>, yields a definition with \<open>dialect = "snowflake"\<close> and
  \<open>blocking = True\<close>: the loader's dialect is passed to the constructor, and only a
  \<open>dialect\<close> property of the header replaces it. The two validators that are
  collaborators are assumed to accept the header's \<open>true\<close>, the query and the statements.
\<close>
theorem load_keeps_loader_dialect:
  assumes "bool_validator C (PExpr (Boolean True)) = Inr True"
    and "expression_validator C (PExpr q) = Inr (PExpr q)"
    and "expression_validator C (PList sts) = Inr (PList sts)"
    and "is_Subqueryable q"
  shows "load C
           (Audit [(''name'', Some (Literal ''orders_not_null'')),
                   (''blocking'', Some (Boolean True))] # sts @ [q])
           p (Some ''snowflake'') =
         Inr \<lparr>name = ''orders_not_null'', dialect = ''snowflake'', skip = False,
              blocking = True, query = q, defaults = [], expressions_opt = Some sts,
              jinja_macros = JinjaMacroRegistry [], private_path = Some p\<rparr>"
proof -
  have ne: "sts @ [q] \<noteq> []" by simp
  have "construct C q sts
          (header_kwargs (Some ''snowflake'')
             [(''name'', Some (Literal ''orders_not_null'')),
              (''blocking'', Some (Boolean True))]) =
        Inr \<lparr>name = ''orders_not_null'', dialect = ''snowflake'', skip = False,
             blocking = True, query = q, defaults = [], expressions_opt = Some sts,
             jinja_macros = JinjaMacroRegistry [], private_path = None\<rparr>"
    unfolding sample_header_kwargs
    using assms
    by (simp add: construct_def ModelAudit_init_def string_field_def bool_field_def
        query_field_def defaults_field_def expressions_field_def jinja_macros_field_def
        lower_samples)
  then show ?thesis
    unfolding load_header [OF ne] sample_fields_1 using assms(4)
    by simp
qed

theorem load_keeps_loader_dialect_witness:
  "load sample_collab
     (Audit [(''name'', Some (Literal ''orders_not_null'')), (''blocking'', Some (Boolean True))]
        # [Statement ''x''] @ [sample_query])
     ''audits.sql'' (Some ''snowflake'') =
   Inr \<lparr>name = ''orders_not_null'', dialect = ''snowflake'', skip = False,
        blocking = True, query = sample_query, defaults = [],
        expressions_opt = Some [Statement ''x''],
        jinja_macros = JinjaMacroRegistry [], private_path = Some ''audits.sql''\<rparr>"
proof -
  have 1: "bool_validator sample_collab (PExpr (Boolean True)) = Inr True"
    by (simp add: sample_collab_def)
  have 2: "expression_validator sample_collab (PExpr sample_query) = Inr (PExpr sample_query)"
    by (simp add: sample_collab_def)
  have 3: "expression_validator sample_collab (PList [Statement ''x'']) =
      Inr (PList [Statement ''x''])"
    by (simp add: sample_collab_def)
  have 4: "is_Subqueryable sample_query" by (simp add: sample_query_def)
  show ?thesis
    by (rule load_keeps_loader_dialect [OF 1 2 3 4])
qed

lemma sample_load_6:
  "load sample_collab [sample_header, sample_query] ''audits.sql'' (Some ''snowflake'') =
     Inr \<lparr>name = ''orders_not_null'', dialect = ''snowflake'', skip = False,
          blocking = True, query = sample_query, defaults = [], expressions_opt = Some [],
          jinja_macros = JinjaMacroRegistry [], private_path = Some ''audits.sql''\<rparr>"
  by code_simp

theorem load_keeps_loader_dialect_counterexample:
  "\<not> isl (load sample_collab [sample_header, sample_query] ''audits.sql'' (Some ''snowflake''))
   \<and> dialect (projr (load sample_collab [sample_header, sample_query] ''audits.sql''
        (Some ''snowflake''))) \<noteq> []
   \<and> dialect (projr (load sample_collab [sample_header, sample_query] ''audits.sql''
        (Some ''snowflake''))) = ''snowflake''"
  by (simp add: sample_load_6)

lemma render_self_cache:
  "render_self C (self\<lparr>private_depends_on := x\<rparr>) = render_self C self"
  by (simp add: render_self_def StandaloneAudit_render_query_def AuditMixin_render_query_def
      StandaloneAudit_create_query_renderer_def macro_definitions_def expressions_def
      path_or_default_def python_env_def render_kwargs_def Let_def
      split: option.splits sum.splits)

lemma depends_on_cached:
  "private_depends_on self = Some s \<Longrightarrow> depends_on C self = (Inr s, self, 0)"
  by (simp add: depends_on_def)

lemma depends_on_fresh:
  assumes "private_depends_on self = None" and "render_self C self = Inr q"
  shows "depends_on C self =
    (Inr (((case depends_on_opt self of None \<Rightarrow> {} | Some s \<Rightarrow> s)
             \<union> find_tables C q (dialect self)) - {name self}),
     (if (case depends_on_opt self of None \<Rightarrow> {} | Some s \<Rightarrow> s) \<noteq> {}
      then self\<lparr>private_depends_on :=
                   Some (((case depends_on_opt self of None \<Rightarrow> {} | Some s \<Rightarrow> s)
                            \<union> find_tables C q (dialect self)) - {name self}),
                depends_on_opt :=
                   Some (((case depends_on_opt self of None \<Rightarrow> {} | Some s \<Rightarrow> s)
                            \<union> find_tables C q (dialect self)) - {name self})\<rparr>
      else self\<lparr>private_depends_on :=
                   Some (((case depends_on_opt self of None \<Rightarrow> {} | Some s \<Rightarrow> s)
                            \<union> find_tables C q (dialect self)) - {name self})\<rparr>),
     1)"
  using assms by (simp add: depends_on_def render_self_cache Let_def)

lemma depends_on_raises:
  assumes "private_depends_on self = None" and "render_self C self = Inl ex"
  shows "depends_on C self =
    (Inl ex,
     self\<lparr>private_depends_on := Some (case depends_on_opt self of None \<Rightarrow> {} | Some s \<Rightarrow> s)\<rparr>,
     1)"
  using assms by (simp add: depends_on_def render_self_cache Let_def)

text \<open>
  Claim C3, as the code has it. On an instance whose cache is unset and whose query
  renders to \<open>q\<close>, the first access of \<open>depends_on\<close> returns the declared dependencies
  united with the tables found in \<open>q\<close>, minus the audit's own name, and calls the
  renderer once; the access that follows returns the same set, leaves the object as it
  is and does not call the renderer. When the renderer fails or yields nothing, the
  first access raises that error. An instance whose cache is set returns the cache
  without rendering.
\<close>
theorem depends_on_memoized:
  "(private_depends_on self = None \<and> render_self C self = Inr q \<longrightarrow>
      fst (depends_on C self) =
        Inr (((case depends_on_opt self of None \<Rightarrow> {} | Some s \<Rightarrow> s)
                \<union> find_tables C q (dialect self)) - {name self})
      \<and> snd (snd (depends_on C self)) = 1
      \<and> depends_on C (fst (snd (depends_on C self))) =
          (fst (depends_on C self), fst (snd (depends_on C self)), 0))
   \<and> (private_depends_on self = None \<and> render_self C self = Inl ex \<longrightarrow>
      fst (depends_on C self) = Inl ex \<and> snd (snd (depends_on C self)) = 1)
   \<and> (private_depends_on self = Some s \<longrightarrow> depends_on C self = (Inr s, self, 0))"
proof (intro conjI impI)
  assume a: "private_depends_on self = None \<and> render_self C self = Inr q"
  then have first: "depends_on C self = (Inr (((case depends_on_opt self of None \<Rightarrow> {} | Some s \<Rightarrow> s)
             \<union> find_tables C q (dialect self)) - {name self}),
     (if (case depends_on_opt self of None \<Rightarrow> {} | Some s \<Rightarrow> s) \<noteq> {}
      then self\<lparr>private_depends_on :=
                   Some (((case depends_on_opt self of None \<Rightarrow> {} | Some s \<Rightarrow> s)
                            \<union> find_tables C q (dialect self)) - {name self}),
                depends_on_opt :=
                   Some (((case depends_on_opt self of None \<Rightarrow> {} | Some s \<Rightarrow> s)
                            \<union> find_tables C q (dialect self)) - {name self})\<rparr>
      else self\<lparr>private_depends_on :=
                   Some (((case depends_on_opt self of None \<Rightarrow> {} | Some s \<Rightarrow> s)
                            \<union> find_tables C q (dialect self)) - {name self})\<rparr>),
     1)"
    by (intro depends_on_fresh) simp_all
  show "fst (depends_on C self) =
      Inr (((case depends_on_opt self of None \<Rightarrow> {} | Some s \<Rightarrow> s)
              \<union> find_tables C q (dialect self)) - {name self})"
    by (simp add: first)
  show "snd (snd (depends_on C self)) = 1"
    by (simp add: first)
  show "depends_on C (fst (snd (depends_on C self))) =
      (fst (depends_on C self), fst (snd (depends_on C self)), 0)"
    unfolding first by (simp add: depends_on_cached)
next
  assume "private_depends_on self = None \<and> render_self C self = Inl ex"
  then have "depends_on C self =
    (Inl ex,
     self\<lparr>private_depends_on := Some (case depends_on_opt self of None \<Rightarrow> {} | Some s \<Rightarrow> s)\<rparr>,
     1)"
    by (intro depends_on_raises) simp_all
  then show "fst (depends_on C self) = Inl ex" "snd (snd (depends_on C self)) = 1"
    by simp_all
next
  assume "private_depends_on self = Some s"
  then show "depends_on C self = (Inr s, self, 0)"
    by (rule depends_on_cached)
qed

lemma sample_render_self:
  "render_self sample_collab sample_standalone = Inr sample_query"
  "render_self sample_collab (sample_standalone\<lparr>query := JinjaQuery ''{{ q }}''\<rparr>) =
     Inl (SQLMeshError (FailedToRender ''audit_a'' ''audit_a''))"
  by code_simp+

theorem depends_on_memoized_witness:
  "fst (depends_on sample_collab sample_standalone) = Inr {''customers'', ''orders''}
   \<and> snd (snd (depends_on sample_collab sample_standalone)) = 1
   \<and> depends_on sample_collab (fst (snd (depends_on sample_collab sample_standalone))) =
       (Inr {''customers'', ''orders''}, fst (snd (depends_on sample_collab sample_standalone)), 0)
   \<and> fst (depends_on sample_collab (sample_standalone\<lparr>query := JinjaQuery ''{{ q }}''\<rparr>)) =
       Inl (SQLMeshError (FailedToRender ''audit_a'' ''audit_a''))
   \<and> depends_on sample_collab
        (sample_standalone\<lparr>private_depends_on := Some {''orders''}\<rparr>) =
       (Inr {''orders''}, sample_standalone\<lparr>private_depends_on := Some {''orders''}\<rparr>, 0)"
proof -
  have fresh: "private_depends_on sample_standalone = None"
    "private_depends_on (sample_standalone\<lparr>query := JinjaQuery ''{{ q }}''\<rparr>) = None"
    by (simp_all add: sample_standalone_def)
  have cached: "private_depends_on (sample_standalone\<lparr>private_depends_on := Some {''orders''}\<rparr>) =
      Some {''orders''}" by simp
  have tables: "((case depends_on_opt sample_standalone of None \<Rightarrow> {} | Some s \<Rightarrow> s)
      \<union> find_tables sample_collab sample_query (dialect sample_standalone))
      - {name sample_standalone} = {''customers'', ''orders''}"
    by (auto simp: sample_standalone_def sample_collab_def sample_query_def)
  from depends_on_memoized [of sample_standalone sample_collab sample_query]
    fresh(1) sample_render_self(1)
  have a: "fst (depends_on sample_collab sample_standalone) = Inr {''customers'', ''orders''}
      \<and> snd (snd (depends_on sample_collab sample_standalone)) = 1
      \<and> depends_on sample_collab (fst (snd (depends_on sample_collab sample_standalone))) =
          (fst (depends_on sample_collab sample_standalone),
           fst (snd (depends_on sample_collab sample_standalone)), 0)"
    unfolding tables by blast
  from depends_on_memoized [of "sample_standalone\<lparr>query := JinjaQuery ''{{ q }}''\<rparr>"
      sample_collab _ "SQLMeshError (FailedToRender ''audit_a'' ''audit_a'')"]
    fresh(2) sample_render_self(2)
  have b: "fst (depends_on sample_collab (sample_standalone\<lparr>query := JinjaQuery ''{{ q }}''\<rparr>)) =
       Inl (SQLMeshError (FailedToRender ''audit_a'' ''audit_a''))"
    by blast
  from depends_on_memoized [of "sample_standalone\<lparr>private_depends_on := Some {''orders''}\<rparr>"
      sample_collab _ _ "{''orders''}"] cached
  have c: "depends_on sample_collab
        (sample_standalone\<lparr>private_depends_on := Some {''orders''}\<rparr>) =
       (Inr {''orders''}, sample_standalone\<lparr>private_depends_on := Some {''orders''}\<rparr>, 0)"
    by blast
  from a b c show ?thesis by simp
qed

theorem depends_on_memoized_counterexample:
  "fst (depends_on sample_collab (sample_standalone\<lparr>query := JinjaQuery ''{{ q }}''\<rparr>)) =
     Inl (SQLMeshError (FailedToRender ''audit_a'' ''audit_a''))
   \<and> fst (depends_on sample_collab
        (fst (snd (depends_on sample_collab
           (sample_standalone\<lparr>query := JinjaQuery ''{{ q }}''\<rparr>))))) =
     Inr {''audit_a'', ''customers''}"
proof -
  have fresh: "private_depends_on (sample_standalone\<lparr>query := JinjaQuery ''{{ q }}''\<rparr>) = None"
    by (simp add: sample_standalone_def)
  note first = depends_on_raises [OF fresh sample_render_self(2)]
  have "depends_on_opt (sample_standalone\<lparr>query := JinjaQuery ''{{ q }}''\<rparr>) =
      Some {''audit_a'', ''customers''}"
    by (simp add: sample_standalone_def)
  then show ?thesis
    unfolding first by (simp add: depends_on_cached)
qed












end
